theory Spec2Isabelle
  imports Complex_Main
begin

section \<open>Exceptions\<close>

text \<open>
  The Python exceptions the modelled code can raise. A function that can raise returns
  \<open>exn + 'a\<close>, with \<open>Inl\<close> for the exception.
\<close>

datatype exn =
    KeyError string
  | IndexError
  | TypeError
  | RuntimeError
  | AttributeError
  | KeyboardInterrupt
  | OtherError string

definition bind :: "exn + 'a \<Rightarrow> ('a \<Rightarrow> exn + 'b) \<Rightarrow> exn + 'b" where
  "bind m f = (case m of Inl e \<Rightarrow> Inl e | Inr x \<Rightarrow> f x)"

section \<open>Configuration and progress\<close>

datatype training_method = FINE_TUNE | LORA | EMBEDDING | FINE_TUNE_VAE

text \<open>
  \<open>ModelType\<close> is an enumeration whose declaration is not among the sources; the code
  asks it three yes/no questions only, so a model type is the three answers.
\<close>

record model_type =
  has_mask_input :: bool
  has_conditioning_image_input :: bool
  has_depth_input :: bool

text \<open>
  The fields of \<open>TrainArgs\<close> that the modelled code reads. \<open>'a\<close> is the type of the
  floating-point numbers of the training dtype; nothing is assumed about its arithmetic
  (no associativity, no order laws), so every theorem holds for floats as for reals.
  \<open>max_noising_strength\<close> is a real number: its product with the number of timesteps is
  the bound that the timestep claim speaks about.
\<close>

record 'a TrainArgs =
  training_method :: training_method
  backup_before_save :: bool
  model_type :: model_type
  train_text_encoder :: bool
  train_text_encoder_epochs :: int
  masked_training :: bool
  batch_size :: int
  offset_noise_weight :: 'a
  max_noising_strength :: real
  debug_mode :: bool
  debug_dir :: string

text \<open>\<open>TrainProgress\<close>: the counters owned by the trainer.\<close>

record TrainProgress =
  epoch :: nat
  epoch_sample :: nat
  global_step :: nat

section \<open>Tensors and the torch operations used\<close>

text \<open>
  A tensor is its shape and its elements in row-major order. The operations below are
  the ones of \<open>torch\<close> that the training step calls, with the errors \<open>torch\<close> raises.
\<close>

record 'a tensor =
  shape :: "nat list"
  elems :: "'a list"

definition numel :: "nat list \<Rightarrow> nat" where
  "numel s = prod_list s"

definition shape_at :: "nat list \<Rightarrow> nat \<Rightarrow> exn + nat" where
  "shape_at s i = (if i < length s then Inr (s ! i) else Inl IndexError)"

definition getitem :: "(string \<rightharpoonup> 'v) \<Rightarrow> string \<Rightarrow> exn + 'v" where
  "getitem d k = (case d k of None \<Rightarrow> Inl (KeyError k) | Some v \<Rightarrow> Inr v)"

definition tmap :: "('a \<Rightarrow> 'b) \<Rightarrow> 'a tensor \<Rightarrow> 'b tensor" where
  "tmap f t = \<lparr>shape = shape t, elems = map f (elems t)\<rparr>"

text \<open>\<open>t * c\<close>, \<open>c * t\<close>, \<open>t / c\<close>, \<open>c - t\<close>, \<open>t.clamp(lo, hi)\<close>, for a Python number \<open>c\<close>.\<close>

definition mul_scalar :: "'a::times tensor \<Rightarrow> 'a \<Rightarrow> 'a tensor" where
  "mul_scalar t c = tmap (\<lambda>x. x * c) t"

definition scalar_mul :: "'a::times \<Rightarrow> 'a tensor \<Rightarrow> 'a tensor" where
  "scalar_mul c t = tmap (\<lambda>x. c * x) t"

definition div_scalar :: "'a::divide tensor \<Rightarrow> 'a \<Rightarrow> 'a tensor" where
  "div_scalar t c = tmap (\<lambda>x. x div c) t"

definition scalar_sub :: "'a::minus \<Rightarrow> 'a tensor \<Rightarrow> 'a tensor" where
  "scalar_sub c t = tmap (\<lambda>x. c - x) t"

definition clamp :: "'a::ord tensor \<Rightarrow> 'a \<Rightarrow> 'a \<Rightarrow> 'a tensor" where
  "clamp t lo hi = tmap (\<lambda>x. min (max x lo) hi) t"

text \<open>
  Broadcasting: shapes are aligned at the right, a missing dimension counts as 1, and two
  sizes agree when they are equal or one of them is 1.
\<close>

definition pad_shape :: "nat \<Rightarrow> nat list \<Rightarrow> nat list" where
  "pad_shape n s = replicate (n - length s) 1 @ s"

fun broadcast_aligned :: "nat list \<Rightarrow> nat list \<Rightarrow> nat list option" where
  "broadcast_aligned [] [] = Some []"
| "broadcast_aligned (d # ds) (e # es) =
     (if d = e \<or> e = 1 then map_option ((#) d) (broadcast_aligned ds es)
      else if d = 1 then map_option ((#) e) (broadcast_aligned ds es)
      else None)"
| "broadcast_aligned _ _ = None"

definition broadcast_shapes :: "nat list \<Rightarrow> nat list \<Rightarrow> nat list option" where
  "broadcast_shapes s1 s2 =
     (let n = max (length s1) (length s2)
      in broadcast_aligned (pad_shape n s1) (pad_shape n s2))"

text \<open>The multi-index of a row-major position in a tensor of shape \<open>s\<close>.\<close>

fun unravel :: "nat list \<Rightarrow> nat \<Rightarrow> nat list" where
  "unravel [] i = []"
| "unravel (d # ds) i = i div prod_list ds # unravel ds (i mod prod_list ds)"

text \<open>The row-major position of a multi-index in a tensor of shape \<open>s\<close>, where the index
  along a dimension of size 1 is pinned to 0 (the dimension is broadcast).\<close>

fun offset_in :: "nat list \<Rightarrow> nat list \<Rightarrow> nat" where
  "offset_in (d # ds) (i # ix) = (if d = 1 then 0 else i) * prod_list ds + offset_in ds ix"
| "offset_in _ _ = 0"

definition expanded :: "'a tensor \<Rightarrow> nat list \<Rightarrow> nat \<Rightarrow> 'a" where
  "expanded t s i = elems t ! offset_in (pad_shape (length s) (shape t)) (unravel s i)"

definition binary_op :: "('a \<Rightarrow> 'b \<Rightarrow> 'c) \<Rightarrow> 'a tensor \<Rightarrow> 'b tensor \<Rightarrow> exn + 'c tensor" where
  "binary_op f a b =
     (case broadcast_shapes (shape a) (shape b) of
        None \<Rightarrow> Inl RuntimeError
      | Some s \<Rightarrow>
          Inr \<lparr>shape = s,
               elems = map (\<lambda>i. f (expanded a s i) (expanded b s i)) [0..<numel s]\<rparr>)"

text \<open>
  \<open>torch.concat(ts, 1)\<close>: the tensors have the same shape but for dimension 1; each
  sample of the result is the samples of the tensors, one after the other.
\<close>

definition sample_block :: "'a tensor \<Rightarrow> nat \<Rightarrow> 'a list" where
  "sample_block t b = (let n = numel (tl (shape t)) in take n (drop (b * n) (elems t)))"

definition concat_dim1 :: "'a tensor list \<Rightarrow> exn + 'a tensor" where
  "concat_dim1 ts =
     (case ts of
        [] \<Rightarrow> Inl RuntimeError
      | t # _ \<Rightarrow>
          if list_all (\<lambda>u. 2 \<le> length (shape u) \<and> hd (shape u) = hd (shape t) \<and>
                           drop 2 (shape u) = drop 2 (shape t)) ts
          then Inr \<lparr>shape = hd (shape t) # sum_list (map (\<lambda>u. shape u ! 1) ts) # drop 2 (shape t),
                    elems = concat (map (\<lambda>b. concat (map (\<lambda>u. sample_block u b) ts))
                                        [0..<hd (shape t)])\<rparr>
          else Inl RuntimeError)"

text \<open>\<open>xs[index]\<close> for a one-dimensional \<open>xs\<close> and an integer tensor \<open>index\<close>.\<close>

definition index_select :: "'a list \<Rightarrow> int tensor \<Rightarrow> exn + 'a tensor" where
  "index_select xs index =
     (let n = int (length xs) in
      if list_all (\<lambda>i. - n \<le> i \<and> i < n) (elems index)
      then Inr (tmap (\<lambda>i. xs ! nat (if i < 0 then i + n else i)) index)
      else Inl IndexError)"

text \<open>\<open>t.flatten().reshape(-1, 1, 1, 1)\<close>\<close>

definition flatten_reshape :: "'a tensor \<Rightarrow> 'a tensor" where
  "flatten_reshape t = \<lparr>shape = [numel (shape t), 1, 1, 1], elems = elems t\<rparr>"

subsection \<open>Random numbers\<close>

text \<open>
  A \<open>torch.Generator\<close> is a seed and the number of values drawn since it was seeded. What
  the stream of a seed holds at a position is given by the library: \<open>normal_stream\<close> for
  Gaussian draws and \<open>integer_stream\<close> for the raw integers behind \<open>randint\<close>;
  \<open>pow_half\<close> is the library's floating-point power with exponent 0.5. They are
  parameters of the model.
\<close>

record Generator =
  seed :: nat
  drawn :: nat

record 'a torch =
  normal_stream :: "nat \<Rightarrow> nat \<Rightarrow> 'a"
  integer_stream :: "nat \<Rightarrow> nat \<Rightarrow> nat"
  pow_half :: "'a \<Rightarrow> 'a"

definition manual_seed :: "nat \<Rightarrow> Generator" where
  "manual_seed s = \<lparr>seed = s, drawn = 0\<rparr>"

definition randn :: "'a torch \<Rightarrow> nat list \<Rightarrow> Generator \<Rightarrow> 'a tensor \<times> Generator" where
  "randn T sz generator =
     (let n = numel sz in
      (\<lparr>shape = sz,
        elems = map (\<lambda>i. normal_stream T (seed generator) (drawn generator + i)) [0..<n]\<rparr>,
       generator\<lparr>drawn := drawn generator + n\<rparr>))"

text \<open>\<open>torch.randint(low, high, size)\<close> raises unless \<open>low < high\<close>; each value is \<open>low\<close> plus
  a raw draw reduced modulo \<open>high - low\<close>.\<close>

definition randint ::
  "'a torch \<Rightarrow> int \<Rightarrow> int \<Rightarrow> nat list \<Rightarrow> Generator \<Rightarrow> exn + (int tensor \<times> Generator)" where
  "randint T low high sz generator =
     (if high \<le> low then Inl RuntimeError
      else
        (let n = numel sz in
         Inr (\<lparr>shape = sz,
               elems = map (\<lambda>i. low + int (integer_stream T (seed generator)
                                            (drawn generator + i)) mod (high - low)) [0..<n]\<rparr>,
              generator\<lparr>drawn := drawn generator + n\<rparr>)))"

text \<open>Python's \<open>int(x)\<close> of a float truncates towards zero.\<close>

definition python_int :: "real \<Rightarrow> int" where
  "python_int x = (if 0 \<le> x then \<lfloor>x\<rfloor> else \<lceil>x\<rceil>)"

section \<open>scripts/train.py\<close>

text \<open>
  \<open>main\<close> builds a trainer for the configured training method, starts it, trains, and
  ends the run. The trainer (\<open>FineTuneTrainer\<close>) is a collaborator: each of its three
  operations acts on the outside world \<open>'w\<close> and either returns or raises, leaving the
  world as it is at that moment.
\<close>

record 'w trainer =
  start :: "'w \<Rightarrow> exn option \<times> 'w"
  train :: "'w \<Rightarrow> exn option \<times> 'w"
  end_run :: "'w \<Rightarrow> exn option \<times> 'w"

datatype call = Start | Train | End

text \<open>What one run of \<open>main\<close> did: the trainer calls in order, the exception that left
  \<open>main\<close>, if any, and the world afterwards.\<close>

record 'w run =
  calls :: "call list"
  raised :: "exn option"
  world_after :: 'w

definition select_trainer ::
  "('a TrainArgs \<Rightarrow> 'w trainer) \<Rightarrow> 'a TrainArgs \<Rightarrow> 'w trainer option" where
  "select_trainer FineTuneTrainer args =
     (case training_method args of
        FINE_TUNE \<Rightarrow> Some (FineTuneTrainer args)
      | LORA \<Rightarrow> Some (FineTuneTrainer args)
      | EMBEDDING \<Rightarrow> Some (FineTuneTrainer args)
      | FINE_TUNE_VAE \<Rightarrow> Some (FineTuneTrainer args))"

text \<open>
  \<open>canceled\<close> is set by the \<open>except KeyboardInterrupt\<close> clause only; any other exception
  of \<open>train\<close> leaves \<open>main\<close> at once.
\<close>

definition finish :: "'a TrainArgs \<Rightarrow> 'w trainer \<Rightarrow> bool \<Rightarrow> 'w \<Rightarrow> 'w run" where
  "finish args trainer canceled w =
     (if \<not> canceled \<or> backup_before_save args then
        (case end_run trainer w of
           (r, w') \<Rightarrow> \<lparr>calls = [Start, Train, End], raised = r, world_after = w'\<rparr>)
      else \<lparr>calls = [Start, Train], raised = None, world_after = w\<rparr>)"

definition main :: "('a TrainArgs \<Rightarrow> 'w trainer) \<Rightarrow> 'a TrainArgs \<Rightarrow> 'w \<Rightarrow> 'w run" where
  "main FineTuneTrainer args w =
     (case select_trainer FineTuneTrainer args of
        None \<Rightarrow> \<lparr>calls = [], raised = Some AttributeError, world_after = w\<rparr>
      | Some trainer \<Rightarrow>
         (case start trainer w of
            (Some e, w1) \<Rightarrow> \<lparr>calls = [Start], raised = Some e, world_after = w1\<rparr>
          | (None, w1) \<Rightarrow>
             (case train trainer w1 of
                (None, w2) \<Rightarrow> finish args trainer False w2
              | (Some e, w2) \<Rightarrow>
                  if e = KeyboardInterrupt then finish args trainer True w2
                  else \<lparr>calls = [Start, Train], raised = Some e, world_after = w2\<rparr>)))"

section \<open>modules/modelSetup/StableDiffusionFineTuneSetup.py\<close>

subsection \<open>The model and \<open>setup_model\<close>\<close>

text \<open>
  A \<open>torch.nn.Module\<close> is its forward function and its parameters; of a parameter only
  the \<open>requires_grad\<close> flag matters here. \<open>set_requires_grad\<close> (the method
  \<^verbatim>\<open>requires_grad_\<close>) sets the flag of every parameter of the module.
\<close>

record Parameter =
  param_name :: string
  requires_grad :: bool

record 'f Module =
  forward :: 'f
  parameters :: "Parameter list"

definition set_requires_grad :: "bool \<Rightarrow> ('f, 'z) Module_scheme \<Rightarrow> ('f, 'z) Module_scheme" where
  "set_requires_grad flag m =
     m\<lparr>parameters := map (\<lambda>p. p\<lparr>requires_grad := flag\<rparr>) (parameters m)\<rparr>"

text \<open>
  An instance attribute that \<open>del\<close> can remove. The class body of
  \<open>StableDiffusionModel\<close> only annotates \<open>optimizer_state_dict\<close>, so reading it after the
  \<open>del\<close> raises \<open>AttributeError\<close>.
\<close>

datatype 'd attribute = Deleted | Attr 'd

text \<open>
  \<open>StableDiffusionModel\<close>: the noise scheduler, the three networks, the optimizer
  (\<open>'o\<close>), its saved state (\<open>'d\<close>) and the progress counters. The networks and the
  scheduler are collaborators: their functions are fields of the model and may raise.
\<close>

record 'a DDPMScheduler =
  num_train_timesteps :: int
  alphas_cumprod :: "'a list"
  add_noise :: "'a tensor \<Rightarrow> 'a tensor \<Rightarrow> int tensor \<Rightarrow> exn + 'a tensor"

record 'a AutoencoderKL = "unit Module" +
  decode :: "'a tensor \<Rightarrow> exn + 'a tensor"
  scaling_factor :: 'a

record ('a, 'o, 'd) StableDiffusionModel =
  noise_scheduler :: "'a DDPMScheduler"
  text_encoder :: "('a tensor \<Rightarrow> exn + 'a tensor) Module"
  vae :: "'a AutoencoderKL"
  unet :: "('a tensor \<Rightarrow> int tensor \<Rightarrow> 'a tensor \<Rightarrow> 'a tensor option \<Rightarrow> exn + 'a tensor) Module"
  optimizer :: "'o option"
  optimizer_state_dict :: "'d option attribute"
  train_progress :: TrainProgress

definition create_parameters ::
  "('a, 'o, 'd) StableDiffusionModel \<Rightarrow> 'a TrainArgs \<Rightarrow> Parameter list" where
  "create_parameters model args =
     (if train_text_encoder args
      then parameters (text_encoder model) @ parameters (unet model)
      else parameters (unet model))"

text \<open>
  \<open>create.create_optimizer\<close> and the optimizer's \<open>load_state_dict\<close> are collaborators
  that may raise. \<open>setup_model\<close> returns the model as it has left it and the exception
  that ended it, if any.
\<close>

record ('a, 'o, 'd) optimizer_factory =
  create_optimizer :: "Parameter list \<Rightarrow> 'a TrainArgs \<Rightarrow> exn + 'o"
  load_state_dict :: "'o \<Rightarrow> 'd \<Rightarrow> exn + 'o"

definition setup_model ::
  "('a, 'o, 'd) optimizer_factory \<Rightarrow> ('a, 'o, 'd) StableDiffusionModel \<Rightarrow>
   'a TrainArgs \<Rightarrow> exn option \<times> ('a, 'o, 'd) StableDiffusionModel" where
  "setup_model create model args =
     (let train_text_encoder =
            (train_text_encoder args \<and>
             int (epoch (train_progress model)) < train_text_encoder_epochs args);
          model = model\<lparr>text_encoder := set_requires_grad train_text_encoder (text_encoder model)\<rparr>;
          model = model\<lparr>vae := set_requires_grad False (vae model)\<rparr>;
          model = model\<lparr>unet := set_requires_grad True (unet model)\<rparr>
      in case optimizer_state_dict model of
           Deleted \<Rightarrow> (Some AttributeError, model)
         | Attr state_dict \<Rightarrow>
             if state_dict \<noteq> None \<and> optimizer model = None then
               (case create_optimizer create (create_parameters model args) args of
                  Inl e \<Rightarrow> (Some e, model)
                | Inr opt \<Rightarrow>
                   (case load_state_dict create opt (the state_dict) of
                      Inl e \<Rightarrow> (Some e, model\<lparr>optimizer := Some opt\<rparr>)
                    | Inr opt' \<Rightarrow>
                        (None, model\<lparr>optimizer := Some opt', optimizer_state_dict := Deleted\<rparr>)))
             else if state_dict = None \<and> optimizer model = None then
               (case create_optimizer create (create_parameters model args) args of
                  Inl e \<Rightarrow> (Some e, model)
                | Inr opt \<Rightarrow> (None, model\<lparr>optimizer := Some opt\<rparr>))
             else (None, model))"

subsection \<open>\<open>predict\<close>\<close>

text \<open>
  The state of the process that \<open>predict\<close> reads and changes besides its arguments: the
  default random generator of \<open>torch\<close> and the images saved so far (\<open>save_image\<close>, a
  method of the base class, writes one image file).
\<close>

record 'a saved_image =
  pixels :: "'a tensor"
  directory :: string
  file_name :: string
  step :: nat

record 'a process =
  default_generator :: Generator
  saved_images :: "'a saved_image list"

definition save_image ::
  "'a tensor \<Rightarrow> string \<Rightarrow> string \<Rightarrow> nat \<Rightarrow> 'a saved_image list \<Rightarrow> 'a saved_image list" where
  "save_image img dir name st saved =
     saved @ [\<lparr>pixels = img, directory = dir, file_name = name, step = st\<rparr>]"

text \<open>Lines 134 to 139: the noise, drawn from the generator seeded with the step.\<close>

definition draw_latent_noise ::
  "'a::{zero,ord,plus,times} torch \<Rightarrow> 'a TrainArgs \<Rightarrow> nat list \<Rightarrow> Generator \<Rightarrow>
   exn + ('a tensor \<times> Generator)" where
  "draw_latent_noise T args shp generator =
     (if 0 < offset_noise_weight args then
        (case randn T shp generator of
           (normal_noise, generator) \<Rightarrow>
             bind (shape_at shp 0) (\<lambda>b.
             bind (shape_at shp 1) (\<lambda>c.
             (case randn T [b, c, 1, 1] generator of
                (offset_noise, generator) \<Rightarrow>
                  bind (binary_op (+) normal_noise
                          (scalar_mul (offset_noise_weight args) offset_noise))
                    (\<lambda>latent_noise. Inr (latent_noise, generator))))))
      else Inr (randn T shp generator))"

text \<open>Lines 141 to 146: the timestep, drawn by \<open>torch.randint\<close> with no \<open>generator\<close>
  argument, that is from the default generator of the process.\<close>

definition draw_timestep ::
  "'a torch \<Rightarrow> 'a DDPMScheduler \<Rightarrow> 'a TrainArgs \<Rightarrow> nat list \<Rightarrow> Generator \<Rightarrow>
   exn + (int tensor \<times> Generator)" where
  "draw_timestep T scheduler args shp default_gen =
     (let high = python_int (real_of_int (num_train_timesteps scheduler) *
                             max_noising_strength args)
      in bind (shape_at shp 0) (\<lambda>n. randint T 0 high [n] default_gen))"

text \<open>Lines 152 to 155: the input of the denoising network.\<close>

definition assemble_latent_input ::
  "'a TrainArgs \<Rightarrow> (string \<rightharpoonup> 'a tensor) \<Rightarrow> 'a tensor \<Rightarrow> 'a tensor option \<Rightarrow>
   exn + 'a tensor" where
  "assemble_latent_input args batch scaled_noisy_latent_image
       scaled_latent_conditioning_image =
     (if has_mask_input (model_type args) \<and> has_conditioning_image_input (model_type args)
      then
        bind (getitem batch ''latent_mask'') (\<lambda>latent_mask.
          (case scaled_latent_conditioning_image of
             None \<Rightarrow> Inl TypeError
           | Some conditioning \<Rightarrow>
               concat_dim1 [scaled_noisy_latent_image, latent_mask, conditioning]))
      else Inr scaled_noisy_latent_image)"

text \<open>Lines 157 to 160: the call of the denoising network.\<close>

definition denoise ::
  "('a, 'o, 'd) StableDiffusionModel \<Rightarrow> 'a TrainArgs \<Rightarrow> (string \<rightharpoonup> 'a tensor) \<Rightarrow>
   'a tensor \<Rightarrow> int tensor \<Rightarrow> 'a tensor \<Rightarrow> exn + 'a tensor" where
  "denoise model args batch latent_input timestep text_encoder_output =
     (if has_depth_input (model_type args) then
        bind (getitem batch ''latent_depth'') (\<lambda>latent_depth.
          forward (unet model) latent_input timestep text_encoder_output (Some latent_depth))
      else forward (unet model) latent_input timestep text_encoder_output None)"

text \<open>The local variables of \<open>predict\<close> when it returns.\<close>

record 'a predict_locals =
  generator :: Generator
  latent_noise :: "'a tensor"
  timestep :: "int tensor"
  scaled_noisy_latent_image :: "'a tensor"
  text_encoder_output :: "'a tensor"
  latent_input :: "'a tensor"
  predicted_latent_noise :: "'a tensor"

text \<open>
  Lines 162 to 202: the debug branch. It decodes intermediate tensors and saves them;
  its result is the list of saved images. The last three images are saved under the step
  of \<open>model.train_progress\<close>, the others under the step of the argument
  \<open>train_progress\<close> of \<open>predict\<close> (written \<open>progress\<close>, the field of the model keeping the name).
\<close>

definition debug_images ::
  "'a::{one,uminus,minus,times,divide,ord} torch \<Rightarrow> ('a, 'o, 'd) StableDiffusionModel \<Rightarrow>
   'a TrainArgs \<Rightarrow> TrainProgress \<Rightarrow> 'a tensor \<Rightarrow> 'a tensor option \<Rightarrow> 'a predict_locals \<Rightarrow>
   'a saved_image list \<Rightarrow> exn + 'a saved_image list" where
  "debug_images T model args progress latent_image latent_conditioning_image l saved =
     (let dir = debug_dir args @ ''/training_batches'' in
      bind (decode (vae model) (div_scalar (latent_noise l) (scaling_factor (vae model))))
        (\<lambda>noise.
      let noise = clamp noise (- 1) 1;
          saved = save_image noise dir ''1-noise'' (global_step progress) saved in
      bind (decode (vae model)
              (div_scalar (predicted_latent_noise l) (scaling_factor (vae model))))
        (\<lambda>predicted_noise.
      let predicted_noise = clamp predicted_noise (- 1) 1;
          saved = save_image predicted_noise dir ''2-predicted_noise''
                    (global_step progress) saved;
          noisy_latent_image =
            div_scalar (scaled_noisy_latent_image l) (scaling_factor (vae model)) in
      bind (decode (vae model) noisy_latent_image) (\<lambda>noisy_image.
      let noisy_image = clamp noisy_image (- 1) 1;
          saved = save_image noisy_image dir ''3-noisy_image''
                    (global_step progress) saved in
      bind (index_select (alphas_cumprod (noise_scheduler model)) (timestep l)) (\<lambda>alpha.
      let sqrt_alpha_prod = flatten_reshape (tmap (pow_half T) alpha) in
      bind (index_select (alphas_cumprod (noise_scheduler model)) (timestep l)) (\<lambda>alpha.
      let sqrt_one_minus_alpha_prod =
            flatten_reshape (tmap (pow_half T) (scalar_sub 1 alpha)) in
      bind (binary_op (*) (predicted_latent_noise l) sqrt_one_minus_alpha_prod) (\<lambda>scaled.
      bind (binary_op (-) (scaled_noisy_latent_image l) scaled) (\<lambda>difference.
      bind (binary_op (div) difference sqrt_alpha_prod) (\<lambda>scaled_predicted_latent_image.
      let predicted_latent_image =
            div_scalar scaled_predicted_latent_image (scaling_factor (vae model)) in
      bind (decode (vae model) predicted_latent_image) (\<lambda>predicted_image.
      let predicted_image = clamp predicted_image (- 1) 1;
          saved = save_image predicted_image dir ''4-predicted_image''
                    (global_step (train_progress model)) saved in
      bind (decode (vae model) latent_image) (\<lambda>image.
      let image = clamp image (- 1) 1;
          saved = save_image image dir ''5-image''
                    (global_step (train_progress model)) saved in
      if has_conditioning_image_input (model_type args) then
        (case latent_conditioning_image of
           None \<Rightarrow> Inl TypeError
         | Some conditioning \<Rightarrow>
             bind (decode (vae model) conditioning) (\<lambda>conditioning_image.
             let conditioning_image = clamp conditioning_image (- 1) 1 in
             Inr (save_image conditioning_image dir ''6-conditioning_image''
                    (global_step progress) saved)))
      else Inr saved)))))))))))"

text \<open>
  Lines 122 to 160: the main path of \<open>predict\<close>, from the batch to the predicted noise.
  It gives the local variables, the two latents of the batch that the debug branch reads,
  and the default generator after the draw of the timestep.
\<close>

definition predict_main ::
  "'a::{zero,ord,plus,times} torch \<Rightarrow>
   ('a, 'o, 'd) StableDiffusionModel \<Rightarrow> (string \<rightharpoonup> 'a tensor) \<Rightarrow> 'a TrainArgs \<Rightarrow>
   TrainProgress \<Rightarrow> Generator \<Rightarrow>
   exn + ('a predict_locals \<times> 'a tensor \<times> 'a tensor option \<times> Generator)" where
  "predict_main T model batch args progress default_gen =
     bind (getitem batch ''latent_image'') (\<lambda>latent_image.
     let scaled_latent_image = mul_scalar latent_image (scaling_factor (vae model)) in
     bind (if has_conditioning_image_input (model_type args) then
             bind (getitem batch ''latent_conditioning_image'') (\<lambda>c.
               Inr (Some c, Some (mul_scalar c (scaling_factor (vae model)))))
           else Inr (None, None))
       (\<lambda>(latent_conditioning_image, scaled_latent_conditioning_image).
     let generator = manual_seed (global_step progress) in
     bind (draw_latent_noise T args (shape scaled_latent_image) generator)
       (\<lambda>(latent_noise, generator).
     bind (draw_timestep T (noise_scheduler model) args (shape scaled_latent_image)
             default_gen)
       (\<lambda>(timestep, default_gen).
     bind (add_noise (noise_scheduler model) scaled_latent_image latent_noise timestep)
       (\<lambda>scaled_noisy_latent_image.
     bind (getitem batch ''tokens'') (\<lambda>tokens.
     bind (forward (text_encoder model) tokens) (\<lambda>text_encoder_output.
     bind (assemble_latent_input args batch scaled_noisy_latent_image
             scaled_latent_conditioning_image)
       (\<lambda>latent_input.
     bind (denoise model args batch latent_input timestep text_encoder_output)
       (\<lambda>predicted_latent_noise.
     Inr (\<lparr>generator = generator, latent_noise = latent_noise, timestep = timestep,
           scaled_noisy_latent_image = scaled_noisy_latent_image,
           text_encoder_output = text_encoder_output, latent_input = latent_input,
           predicted_latent_noise = predicted_latent_noise\<rparr>,
          latent_image, latent_conditioning_image, default_gen))))))))))"

text \<open>
  \<open>predict_run\<close> is the body of \<open>predict\<close>: the main path, then the debug branch when
  \<open>args.debug_mode\<close> is set. It gives the local variables at the \<open>return\<close> and the
  state of the process then. \<open>predict\<close> returns the pair
  \<open>(predicted_latent_noise, latent_noise)\<close>.
\<close>

definition predict_run ::
  "'a::{zero,one,plus,uminus,minus,times,divide,ord} torch \<Rightarrow>
   ('a, 'o, 'd) StableDiffusionModel \<Rightarrow> (string \<rightharpoonup> 'a tensor) \<Rightarrow> 'a TrainArgs \<Rightarrow>
   TrainProgress \<Rightarrow> 'a process \<Rightarrow> exn + ('a predict_locals \<times> 'a process)" where
  "predict_run T model batch args progress p =
     bind (predict_main T model batch args progress (default_generator p))
       (\<lambda>(l, latent_image, latent_conditioning_image, default_gen).
     bind (if debug_mode args then
             debug_images T model args progress latent_image latent_conditioning_image
               l (saved_images p)
           else Inr (saved_images p))
       (\<lambda>saved.
     Inr (l, \<lparr>default_generator = default_gen, saved_images = saved\<rparr>)))"

definition predict ::
  "'a::{zero,one,plus,uminus,minus,times,divide,ord} torch \<Rightarrow>
   ('a, 'o, 'd) StableDiffusionModel \<Rightarrow> (string \<rightharpoonup> 'a tensor) \<Rightarrow> 'a TrainArgs \<Rightarrow>
   TrainProgress \<Rightarrow> 'a process \<Rightarrow> exn + ('a tensor \<times> 'a tensor)" where
  "predict T model batch args progress p =
     bind (predict_run T model batch args progress p)
       (\<lambda>(l, p'). Inr (predicted_latent_noise l, latent_noise l))"

section \<open>modules/modelSampler/SanaSampler.py: sample\<close>

text \<open>
  Modelled from the spec: \<open>BaseModelSampler.quantize_resolution\<close> is inherited from a
  class that is not among the sources. The sampler quantizes a resolution to a multiple
  of the step; the model is Python's \<open>round(resolution / quantization) * quantization\<close>,
  where \<open>round\<close> takes a tie to the even neighbour, written in exact integer arithmetic.
\<close>

definition quantize_resolution :: "int \<Rightarrow> int \<Rightarrow> int" where
  "quantize_resolution resolution quantization =
     (let q = resolution div quantization;
          r = resolution mod quantization;
          rounded =
            (if 2 * \<bar>r\<bar> < \<bar>quantization\<bar> then q
             else if 2 * \<bar>r\<bar> > \<bar>quantization\<bar> then q + 1
             else if even q then q else q + 1)
      in rounded * quantization)"

text \<open>The fields of \<open>SampleConfig\<close> that \<open>sample\<close> reads (\<open>seed\<close> and
  \<open>noise_scheduler\<close> are written \<open>sample_seed\<close> and \<open>noise_scheduler_kind\<close>: the
  generator and the model have fields of these names).\<close>

record ('a, 'n) SampleConfig =
  prompt :: string
  negative_prompt :: string
  height :: int
  width :: int
  sample_seed :: int
  random_seed :: bool
  diffusion_steps :: int
  cfg_scale :: 'a
  noise_scheduler_kind :: 'n
  text_encoder_1_layer_skip :: int
  force_last_timestep :: bool

text \<open>The keyword arguments of one call of \<open>__sample_base\<close>.\<close>

record ('a, 'n) sample_base_call =
  arg_prompt :: string
  arg_negative_prompt :: string
  arg_height :: int
  arg_width :: int
  arg_seed :: int
  arg_random_seed :: bool
  arg_diffusion_steps :: int
  arg_cfg_scale :: 'a
  arg_noise_scheduler :: 'n
  arg_cfg_rescale :: "'a"
  arg_text_encoder_layer_skip :: int
  arg_force_last_timestep :: bool

text \<open>
  The size of the latent that \<open>__sample_base\<close> draws and denoises:
  \<open>(1, num_channels_latents, height // vae_scale_factor, width // vae_scale_factor)\<close>.
\<close>

definition latent_image_size :: "int \<Rightarrow> int \<Rightarrow> ('a, 'n) sample_base_call \<Rightarrow> int list" where
  "latent_image_size num_channels_latents vae_scale_factor c =
     [1, num_channels_latents, arg_height c div vae_scale_factor,
      arg_width c div vae_scale_factor]"

text \<open>
  \<open>sample\<close>: the prompts get the embeddings added (\<open>add_embeddings_to_prompt\<close>, a method
  of the model), the image comes from \<open>__sample_base\<close> (the denoising pipeline, a
  parameter here), and it is saved at the destination and handed to \<open>on_sample\<close>.
  \<open>sample_base_arguments\<close> is the argument list of the one call of \<open>__sample_base\<close>;
  the result of \<open>sample\<close> is the list of saved files and the images handed over.
  \<open>rescale\<close> and \<open>zero\<close> stand for the float constants 0.7 and 0.0.
\<close>

definition sample_base_arguments ::
  "(string \<Rightarrow> string) \<Rightarrow> 'a \<Rightarrow> 'a \<Rightarrow> ('a, 'n) SampleConfig \<Rightarrow> ('a, 'n) sample_base_call" where
  "sample_base_arguments add_embeddings_to_prompt rescale zero sample_config =
     (let prompt = add_embeddings_to_prompt (prompt sample_config);
          negative_prompt = add_embeddings_to_prompt (negative_prompt sample_config)
      in \<lparr>arg_prompt = prompt,
          arg_negative_prompt = negative_prompt,
          arg_height = quantize_resolution (height sample_config) 32,
          arg_width = quantize_resolution (width sample_config) 32,
          arg_seed = sample_seed sample_config,
          arg_random_seed = random_seed sample_config,
          arg_diffusion_steps = diffusion_steps sample_config,
          arg_cfg_scale = cfg_scale sample_config,
          arg_noise_scheduler = noise_scheduler_kind sample_config,
          arg_cfg_rescale = (if force_last_timestep sample_config then rescale else zero),
          arg_text_encoder_layer_skip = text_encoder_1_layer_skip sample_config,
          arg_force_last_timestep = force_last_timestep sample_config\<rparr>)"

definition sample ::
  "(string \<Rightarrow> string) \<Rightarrow> (('a, 'n) sample_base_call \<Rightarrow> 'img) \<Rightarrow> 'a \<Rightarrow> 'a \<Rightarrow>
   ('a, 'n) SampleConfig \<Rightarrow> string \<Rightarrow> (string \<times> 'img) list \<times> 'img list" where
  "sample add_embeddings_to_prompt sample_base rescale zero sample_config destination =
     (let image = sample_base
            (sample_base_arguments add_embeddings_to_prompt rescale zero sample_config)
      in ([(destination, image)], [image]))"

section \<open>modules/dataLoader/MgdsStableDiffusionVaeFineTuneVaeDataLoader.py\<close>

text \<open>
  The pipeline modules come from the \<open>mgds\<close> library; the data loader only constructs
  them. A module is its constructor and the arguments it is built with, in the order the
  source writes them.
\<close>

datatype pipeline_module =
    CollectPaths string string string string string "string list"
      "string list option" "string list option"
    \<comment> \<open>\<open>concept_in_name\<close>, \<open>path_in_name\<close>, \<open>name_in_name\<close>, \<open>path_out_name\<close>,
        \<open>concept_out_name\<close>, \<open>extensions\<close>, \<open>include_postfix\<close>, \<open>exclude_postfix\<close>\<close>
  | ModifyPath string string string string
    \<comment> \<open>\<open>in_name\<close>, \<open>out_name\<close>, \<open>postfix\<close>, \<open>extension\<close>\<close>
  | SampleVAEDistribution string string string
    \<comment> \<open>\<open>in_name\<close>, \<open>out_name\<close>, \<open>mode\<close>\<close>
  | AspectBatchSorting string "string list" int bool
    \<comment> \<open>\<open>resolution_in_name\<close>, \<open>names\<close>, \<open>batch_size\<close>,
        \<open>sort_resolutions_for_each_epoch\<close>\<close>
  | OutputPipelineModule "string list"
    \<comment> \<open>\<open>names\<close>\<close>

definition supported_extensions :: "string list" where
  "supported_extensions =
     [''.bmp'', ''.jpg'', ''.jpeg'', ''.png'', ''.tif'', ''.tiff'', ''.webp'']"

definition collect_paths :: pipeline_module where
  "collect_paths =
     CollectPaths ''concept'' ''path'' ''name'' ''image_path'' ''concept''
       supported_extensions None (Some [''-masklabel''])"

definition mask_path :: pipeline_module where
  "mask_path = ModifyPath ''image_path'' ''mask_path'' ''-masklabel'' ''.png''"

definition enumerate_input_modules :: "'a TrainArgs \<Rightarrow> pipeline_module list" where
  "enumerate_input_modules args =
     (let modules = [collect_paths] in
      if masked_training args then modules @ [mask_path] else modules)"

definition output_names :: "'a TrainArgs \<Rightarrow> string list" where
  "output_names args =
     (let names = [''image'', ''latent_image'', ''image_path''] in
      if masked_training args then names @ [''latent_mask''] else names)"

definition output_modules :: "'a TrainArgs \<Rightarrow> pipeline_module list" where
  "output_modules args =
     (let image_sample =
            SampleVAEDistribution ''latent_image_distribution'' ''latent_image'' ''mean'';
          batch_sorting =
            AspectBatchSorting ''crop_resolution'' (output_names args) (batch_size args) True;
          output = OutputPipelineModule (output_names args)
      in [image_sample, batch_sorting, output])"

text \<open>The mode each distribution-sampling module of a stage is built with.\<close>

fun sampling_modes :: "pipeline_module list \<Rightarrow> string list" where
  "sampling_modes [] = []"
| "sampling_modes (SampleVAEDistribution i out mode # ms) = mode # sampling_modes ms"
| "sampling_modes (m # ms) = sampling_modes ms"

section \<open>Example inputs\<close>

text \<open>Concrete inputs on which the theorems below are evaluated, over the reals.\<close>

definition example_args :: "real TrainArgs" where
  "example_args =
     \<lparr>training_method = FINE_TUNE, backup_before_save = False,
      model_type = \<lparr>has_mask_input = False, has_conditioning_image_input = False,
                    has_depth_input = False\<rparr>,
      train_text_encoder = True, train_text_encoder_epochs = 30,
      masked_training = False, batch_size = 2, offset_noise_weight = 0,
      max_noising_strength = 1, debug_mode = False, debug_dir = ''debug''\<rparr>"

definition interrupted_trainer :: "nat trainer" where
  "interrupted_trainer =
     \<lparr>start = (\<lambda>w. (None, w + 1)),
      train = (\<lambda>w. (Some KeyboardInterrupt, w + 10)),
      end_run = (\<lambda>w. (None, w + 100))\<rparr>"

definition example_sample_config :: "(real, unit) SampleConfig" where
  "example_sample_config =
     \<lparr>prompt = ''a photo'', negative_prompt = ''blurry'', height = 1000, width = 720,
      sample_seed = 42, random_seed = False, diffusion_steps = 20, cfg_scale = 7,
      noise_scheduler_kind = (), text_encoder_1_layer_skip = 0,
      force_last_timestep = False\<rparr>"

text \<open>
  A run of \<open>predict\<close>: a library whose Gaussian stream of seed \<open>s\<close> holds \<open>s + i\<close> at
  position \<open>i\<close> and whose integer stream holds \<open>7 s + 3 i + 5\<close>, a scheduler that adds
  the noise to the sample, networks that return their input, and a batch of one sample
  with one channel of one row of two columns.
\<close>

definition example_torch :: "real torch" where
  "example_torch =
     \<lparr>normal_stream = (\<lambda>s i. real (s + i)),
      integer_stream = (\<lambda>s i. 7 * s + 3 * i + 5),
      pow_half = sqrt\<rparr>"

definition example_model :: "(real, unit, unit) StableDiffusionModel" where
  "example_model =
     \<lparr>noise_scheduler =
        \<lparr>num_train_timesteps = 1000, alphas_cumprod = replicate 1000 1,
         add_noise = (\<lambda>x n t. binary_op (+) x n)\<rparr>,
      text_encoder =
        \<lparr>forward = Inr,
         parameters = [\<lparr>param_name = ''text_encoder.weight'', requires_grad = False\<rparr>]\<rparr>,
      vae =
        \<lparr>forward = (),
         parameters = [\<lparr>param_name = ''vae.weight'', requires_grad = True\<rparr>],
         decode = Inr, scaling_factor = 2\<rparr>,
      unet =
        \<lparr>forward = (\<lambda>x t c d. Inr x),
         parameters = [\<lparr>param_name = ''unet.weight'', requires_grad = False\<rparr>]\<rparr>,
      optimizer = None, optimizer_state_dict = Attr None,
      train_progress = \<lparr>epoch = 3, epoch_sample = 0, global_step = 7\<rparr>\<rparr>"

definition example_batch :: "string \<rightharpoonup> real tensor" where
  "example_batch =
     [''latent_image'' \<mapsto> \<lparr>shape = [1, 1, 1, 2], elems = [1, 2]\<rparr>,
      ''latent_mask'' \<mapsto> \<lparr>shape = [1, 1, 1, 2], elems = [0, 1]\<rparr>,
      ''latent_conditioning_image'' \<mapsto> \<lparr>shape = [1, 1, 1, 2], elems = [3, 4]\<rparr>,
      ''tokens'' \<mapsto> \<lparr>shape = [1, 1], elems = [0]\<rparr>]"

definition example_progress :: TrainProgress where
  "example_progress = \<lparr>epoch = 3, epoch_sample = 0, global_step = 7\<rparr>"

definition example_process :: "real process" where
  "example_process = \<lparr>default_generator = \<lparr>seed = 0, drawn = 0\<rparr>, saved_images = []\<rparr>"

text \<open>The local variables of \<open>predict\<close> at the end of that run.\<close>

definition example_locals :: "real predict_locals" where
  "example_locals =
     \<lparr>generator = \<lparr>seed = 7, drawn = 2\<rparr>,
      latent_noise = \<lparr>shape = [1, 1, 1, 2], elems = [7, 8]\<rparr>,
      timestep = \<lparr>shape = [1], elems = [5]\<rparr>,
      scaled_noisy_latent_image = \<lparr>shape = [1, 1, 1, 2], elems = [9, 12]\<rparr>,
      text_encoder_output = \<lparr>shape = [1, 1], elems = [0]\<rparr>,
      latent_input = \<lparr>shape = [1, 1, 1, 2], elems = [9, 12]\<rparr>,
      predicted_latent_noise = \<lparr>shape = [1, 1, 1, 2], elems = [9, 12]\<rparr>\<rparr>"

text \<open>The same run for an inpainting model type, with offset noise of weight one half.\<close>

definition inpainting_args :: "real TrainArgs" where
  "inpainting_args =
     example_args
       \<lparr>model_type := \<lparr>has_mask_input = True, has_conditioning_image_input = True,
                        has_depth_input = False\<rparr>,
        offset_noise_weight := 1 / 2\<rparr>"

definition inpainting_locals :: "real predict_locals" where
  "inpainting_locals =
     \<lparr>generator = \<lparr>seed = 7, drawn = 3\<rparr>,
      latent_noise = \<lparr>shape = [1, 1, 1, 2], elems = [23 / 2, 25 / 2]\<rparr>,
      timestep = \<lparr>shape = [1], elems = [5]\<rparr>,
      scaled_noisy_latent_image = \<lparr>shape = [1, 1, 1, 2], elems = [27 / 2, 33 / 2]\<rparr>,
      text_encoder_output = \<lparr>shape = [1, 1], elems = [0]\<rparr>,
      latent_input = \<lparr>shape = [1, 3, 1, 2], elems = [27 / 2, 33 / 2, 0, 1, 6, 8]\<rparr>,
      predicted_latent_noise =
        \<lparr>shape = [1, 3, 1, 2], elems = [27 / 2, 33 / 2, 0, 1, 6, 8]\<rparr>\<rparr>"

text \<open>The five images that the debug branch saves in the first run.\<close>

definition example_debug_images :: "real saved_image list" where
  "example_debug_images =
     map (\<lambda>name. \<lparr>pixels = \<lparr>shape = [1, 1, 1, 2], elems = [1, 1]\<rparr>,
                   directory = ''debug/training_batches'', file_name = name, step = 7\<rparr>)
       [''1-noise'', ''2-predicted_noise'', ''3-noisy_image'', ''4-predicted_image'',
        ''5-image'']"

text \<open>An optimizer factory that never raises; the optimizer and its state are units.\<close>

definition example_factory :: "(real, unit, unit) optimizer_factory" where
  "example_factory =
     \<lparr>create_optimizer = (\<lambda>ps args. Inr ()), load_state_dict = (\<lambda>opt d. Inr opt)\<rparr>"

section \<open>Theorems: scripts/train.py\<close>

lemma select_trainer_Some: "select_trainer F args = Some (F args)"
  by (cases "training_method args") (simp_all add: select_trainer_def)

text \<open>
  C2. When the trainer has started and \<open>train\<close> is interrupted by the user
  (\<open>KeyboardInterrupt\<close>), \<open>main\<close> does not re-raise the interruption: it calls
  \<open>trainer.end()\<close> exactly when \<open>args.backup_before_save\<close> is set, and stops silently
  after \<open>train\<close> when it is not. When \<open>train\<close> returns normally, \<open>trainer.end()\<close> is
  always called.
\<close>

theorem main_end_of_run_save:
  "fst (start (F args) w) = None \<Longrightarrow>
     (fst (train (F args) (snd (start (F args) w))) = Some KeyboardInterrupt \<longrightarrow>
        (End \<in> set (calls (main F args w)) \<longleftrightarrow> backup_before_save args) \<and>
        (\<not> backup_before_save args \<longrightarrow> raised (main F args w) = None)) \<and>
     (fst (train (F args) (snd (start (F args) w))) = None \<longrightarrow>
        calls (main F args w) = [Start, Train, End])"
  by (auto simp: main_def finish_def select_trainer_Some split: prod.splits option.splits)

text \<open>An interrupted run with \<open>backup_before_save\<close> off: no end-of-run save, no exception;
  with it on: the save is made.\<close>

theorem main_end_of_run_save_witness:
  "End \<notin> set (calls (main (\<lambda>a. interrupted_trainer) example_args 0)) \<and>
   raised (main (\<lambda>a. interrupted_trainer) example_args 0) = None \<and>
   End \<in> set (calls (main (\<lambda>a. interrupted_trainer)
                        (example_args\<lparr>backup_before_save := True\<rparr>) 0))"
  using main_end_of_run_save [of "\<lambda>a. interrupted_trainer" example_args 0]
        main_end_of_run_save [of "\<lambda>a. interrupted_trainer"
                                 "example_args\<lparr>backup_before_save := True\<rparr>" 0]
  by (simp add: interrupted_trainer_def example_args_def)

section \<open>Theorems: setup_model\<close>

lemma map_requires_grad_set:
  "map requires_grad (parameters (set_requires_grad flag m)) =
     replicate (length (parameters m)) flag"
  by (simp add: set_requires_grad_def map_replicate_const comp_def)

lemma setup_model_networks:
  "text_encoder (snd (setup_model create model args)) =
     set_requires_grad (train_text_encoder args \<and>
         int (epoch (train_progress model)) < train_text_encoder_epochs args)
       (text_encoder model) \<and>
   vae (snd (setup_model create model args)) = set_requires_grad False (vae model) \<and>
   unet (snd (setup_model create model args)) = set_requires_grad True (unet model)"
  by (simp add: setup_model_def Let_def split: attribute.splits sum.splits)

text \<open>
  C9. After every call of \<open>setup_model\<close>, whether it returns or raises while it builds
  the optimizer, every parameter of the VAE has \<open>requires_grad\<close> False, every parameter
  of the U-Net has it True, and every parameter of the text encoder has it equal to
  \<open>args.train_text_encoder and epoch < args.train_text_encoder_epochs\<close>.
\<close>

theorem setup_model_requires_grad:
  "map requires_grad (parameters (vae (snd (setup_model create model args)))) =
     replicate (length (parameters (vae model))) False \<and>
   map requires_grad (parameters (unet (snd (setup_model create model args)))) =
     replicate (length (parameters (unet model))) True \<and>
   map requires_grad (parameters (text_encoder (snd (setup_model create model args)))) =
     replicate (length (parameters (text_encoder model)))
       (train_text_encoder args \<and>
        int (epoch (train_progress model)) < train_text_encoder_epochs args)"
  by (simp add: setup_model_networks map_requires_grad_set)

text \<open>The example model at epoch 3, with the text encoder trained for 30 epochs: the flags
  False, True, False of the text encoder, the VAE and the U-Net become True, False, True,
  and the optimizer is created.\<close>

theorem setup_model_requires_grad_witness:
  "map requires_grad (parameters (text_encoder example_model)) = [False] \<and>
   map requires_grad (parameters (vae example_model)) = [True] \<and>
   map requires_grad (parameters (unet example_model)) = [False] \<and>
   fst (setup_model example_factory example_model example_args) = None \<and>
   map requires_grad (parameters (text_encoder
     (snd (setup_model example_factory example_model example_args)))) = [True] \<and>
   map requires_grad (parameters (vae
     (snd (setup_model example_factory example_model example_args)))) = [False] \<and>
   map requires_grad (parameters (unet
     (snd (setup_model example_factory example_model example_args)))) = [True] \<and>
   optimizer (snd (setup_model example_factory example_model example_args)) = Some ()"
  using setup_model_requires_grad [of example_factory example_model example_args]
  by (simp add: example_model_def example_args_def)
     (simp add: setup_model_def example_factory_def example_model_def example_args_def
                create_parameters_def set_requires_grad_def Let_def)

section \<open>Theorems: predict\<close>

subsection \<open>The steps of a run\<close>

lemma bind_Inr_iff: "bind m f = Inr y \<longleftrightarrow> (\<exists>x. m = Inr x \<and> f x = Inr y)"
  by (cases m) (simp_all add: bind_def)

lemma bind_Inr: "bind (Inr x) f = f x"
  by (simp add: bind_def)

lemma shape_mul_scalar: "shape (mul_scalar t c) = shape t"
  by (simp add: mul_scalar_def tmap_def)

lemma python_int_le: "0 < python_int x \<Longrightarrow> real_of_int (python_int x) \<le> x"
  by (auto simp: python_int_def split: if_splits)

lemma randint_range:
  assumes "randint T low high sz g = Inr (t, g')"
  shows "shape t = sz \<and> length (elems t) = numel sz \<and>
         (\<forall>x \<in> set (elems t). low \<le> x \<and> x < high) \<and>
         g' = g\<lparr>drawn := drawn g + numel sz\<rparr>"
proof -
  from assms have lt: "low < high" by (auto simp: randint_def split: if_splits)
  have "low + r mod (high - low) < high" for r :: int
    using pos_mod_bound [of "high - low" r] lt by linarith
  moreover have "low \<le> low + r mod (high - low)" for r :: int
    using pos_mod_sign [of "high - low" r] lt by linarith
  ultimately show ?thesis
    using assms by (auto simp: randint_def Let_def split: if_splits)
qed

lemma draw_timestep_range:
  assumes "draw_timestep T sched args shp g = Inr (t, g')"
  shows "\<exists>n. shape_at shp 0 = Inr n \<and> shape t = [n] \<and> length (elems t) = n \<and>
     (\<forall>x \<in> set (elems t). 0 \<le> x \<and>
        real_of_int x < max_noising_strength args * real_of_int (num_train_timesteps sched))"
proof -
  let ?high = "python_int (real_of_int (num_train_timesteps sched) * max_noising_strength args)"
  from assms obtain n where n: "shape_at shp 0 = Inr n"
    and r: "randint T 0 ?high [n] g = Inr (t, g')"
    by (auto simp: draw_timestep_def Let_def bind_Inr_iff)
  from r have pos: "0 < ?high" by (auto simp: randint_def split: if_splits)
  from randint_range[OF r] have sh: "shape t = [n]" "length (elems t) = n"
    and rg: "\<forall>x \<in> set (elems t). 0 \<le> x \<and> x < ?high"
    by (auto simp: numel_def)
  have "real_of_int ?high \<le> real_of_int (num_train_timesteps sched) * max_noising_strength args"
    using python_int_le[OF pos] .
  with rg have "\<forall>x \<in> set (elems t). 0 \<le> x \<and>
        real_of_int x < max_noising_strength args * real_of_int (num_train_timesteps sched)"
    by (fastforce simp: mult.commute)
  with n sh show ?thesis by blast
qed

lemma predict_main_steps:
  assumes "predict_main T model batch args progress dg = Inr (l, x, lci, dg')"
  shows "batch ''latent_image'' = Some x \<and>
    lci = (if has_conditioning_image_input (model_type args)
           then batch ''latent_conditioning_image'' else None) \<and>
    draw_latent_noise T args (shape x) (manual_seed (global_step progress)) =
      Inr (latent_noise l, generator l) \<and>
    draw_timestep T (noise_scheduler model) args (shape x) dg = Inr (timestep l, dg') \<and>
    add_noise (noise_scheduler model) (mul_scalar x (scaling_factor (vae model)))
      (latent_noise l) (timestep l) = Inr (scaled_noisy_latent_image l) \<and>
    assemble_latent_input args batch (scaled_noisy_latent_image l)
      (map_option (\<lambda>c. mul_scalar c (scaling_factor (vae model))) lci) = Inr (latent_input l) \<and>
    denoise model args batch (latent_input l) (timestep l) (text_encoder_output l) =
      Inr (predicted_latent_noise l)"
  using assms
  by (auto simp: predict_main_def Let_def bind_Inr_iff getitem_def shape_mul_scalar
           split: option.splits if_splits)

lemma predict_run_main:
  "predict_run T model batch args progress p = Inr (l, q) \<Longrightarrow>
     \<exists>x lci. predict_main T model batch args progress (default_generator p) =
       Inr (l, x, lci, default_generator q)"
  by (auto simp: predict_run_def bind_Inr_iff)

lemma draw_latent_noise_debug:
  "draw_latent_noise T (args\<lparr>debug_mode := b\<rparr>) = draw_latent_noise T args"
  by (intro ext) (simp add: draw_latent_noise_def)

lemma draw_timestep_debug:
  "draw_timestep T sched (args\<lparr>debug_mode := b\<rparr>) = draw_timestep T sched args"
  by (intro ext) (simp add: draw_timestep_def)

lemma assemble_latent_input_debug:
  "assemble_latent_input (args\<lparr>debug_mode := b\<rparr>) = assemble_latent_input args"
  by (intro ext) (simp add: assemble_latent_input_def)

lemma denoise_debug:
  "denoise model (args\<lparr>debug_mode := b\<rparr>) = denoise model args"
  by (intro ext) (simp add: denoise_def)

lemma predict_main_debug:
  "predict_main T model batch (args\<lparr>debug_mode := b\<rparr>) progress dg =
   predict_main T model batch args progress dg"
  by (simp add: predict_main_def draw_latent_noise_debug draw_timestep_debug
                assemble_latent_input_debug denoise_debug)

lemma predict_run_no_debug:
  "predict_run T model batch (args\<lparr>debug_mode := False\<rparr>) progress p =
     bind (predict_main T model batch args progress (default_generator p))
       (\<lambda>(l, x, lci, dg). Inr (l, \<lparr>default_generator = dg, saved_images = saved_images p\<rparr>))"
  by (simp add: predict_run_def predict_main_debug bind_Inr cong: if_cong)

lemma concat_dim1_channels:
  "concat_dim1 [a, b, c] = Inr t \<Longrightarrow>
     shape t ! 1 = shape a ! 1 + shape b ! 1 + shape c ! 1"
  by (auto simp: concat_dim1_def split: if_splits)

subsection \<open>Broadcasting the offset noise\<close>

lemma offset_in_unravel: "i < prod_list s \<Longrightarrow> offset_in s (unravel s i) = i"
proof (induction s arbitrary: i)
  case Nil
  then show ?case by simp
next
  case (Cons d ds)
  let ?P = "prod_list ds"
  from Cons.prems have P: "0 < ?P" by (cases "?P = 0") simp_all
  then have "i mod ?P < ?P" by simp
  then have ih: "offset_in ds (unravel ds (i mod ?P)) = i mod ?P" by (rule Cons.IH)
  show ?case
  proof (cases "d = 1")
    case True
    with Cons.prems have "i < ?P" by simp
    with ih True show ?thesis by simp
  next
    case False
    with ih show ?thesis by simp
  qed
qed

lemma div_mod_block:
  fixes q r P :: nat
  assumes "r < P"
  shows "(q * P + r) div P = q" and "(q * P + r) mod P = r"
  using assms by simp_all

lemma block_bound:
  fixes a A r P :: nat
  assumes "a < A" "r < P"
  shows "a * P + r < A * P"
proof -
  have "a * P + r < a * P + P" using assms by simp
  also have "\<dots> = (a + 1) * P" by simp
  also have "\<dots> \<le> A * P" using assms by (intro mult_le_mono1) simp
  finally show ?thesis .
qed

lemma unravel4:
  assumes "c < C" "h < H" "k < W"
  shows "unravel [B, C, H, W] (((b * C + c) * H + h) * W + k) = [b, c, h, k]"
proof -
  have hk: "h * W + k < H * W" using assms(2,3) by (rule block_bound)
  have chk: "c * (H * W) + (h * W + k) < C * (H * W)" using assms(1) hk by (rule block_bound)
  have i: "((b * C + c) * H + h) * W + k = b * (C * (H * W)) + (c * (H * W) + (h * W + k))"
    by (simp add: algebra_simps)
  show ?thesis
    unfolding i
    using div_mod_block [OF chk, of b] div_mod_block [OF hk, of c] div_mod_block [OF assms(3), of h]
    by simp
qed

lemma flat4_bound:
  fixes b c h k B C H W :: nat
  assumes "b < B" "c < C" "h < H" "k < W"
  shows "((b * C + c) * H + h) * W + k < B * C * H * W"
proof -
  have "b * C + c < B * C" using assms(1,2) by (rule block_bound)
  then have "(b * C + c) * H + h < B * C * H" using assms(3) by (rule block_bound)
  then show ?thesis using assms(4) by (rule block_bound)
qed

lemma broadcast_offset_shape:
  "broadcast_shapes [B, C, H, W] [B, C, 1, 1] = Some [B, C, H, W]"
  "broadcast_shapes [B, C, H, W] [B, C, Suc 0, Suc 0] = Some [B, C, H, W]"
  by (simp_all add: broadcast_shapes_def pad_shape_def)

lemma randn_fst:
  "fst (randn T sz g) = \<lparr>shape = sz, elems = map (\<lambda>i. normal_stream T (seed g) (drawn g + i)) [0..<prod_list sz]\<rparr>"
  "snd (randn T sz g) = g\<lparr>drawn := drawn g + prod_list sz\<rparr>"
  by (simp_all add: randn_def numel_def Let_def)

lemma offset_noise_shape:
  assumes "binary_op (+) (fst (randn T [B, C, H, W] g))
             (scalar_mul w (fst (randn T [B, C, 1, 1] g'))) = Inr t"
  shows "shape t = [B, C, H, W]"
  using assms
  by (auto simp: binary_op_def randn_fst scalar_mul_def tmap_def broadcast_offset_shape)

lemma offset_noise_elements:
  assumes "binary_op (+) (fst (randn T [B, C, H, W] g))
             (scalar_mul w (fst (randn T [B, C, 1, 1] (snd (randn T [B, C, H, W] g))))) = Inr t"
    and "b < B" "c < C" "h < H" "k < W"
  shows "elems t ! (((b * C + c) * H + h) * W + k) =
           normal_stream T (seed g) (drawn g + (((b * C + c) * H + h) * W + k)) +
           w * normal_stream T (seed g) (drawn g + B * C * H * W + (b * C + c))"
proof -
  let ?i = "((b * C + c) * H + h) * W + k"
  let ?s = "[B, C, H, W]"
  let ?N = "fst (randn T ?s g)"
  let ?O = "scalar_mul w (fst (randn T [B, C, 1, 1] (snd (randn T ?s g))))"
  have i: "?i < B * C * H * W" using assms(2-5) by (rule flat4_bound)
  have bc: "b * C + c < B * C" using assms(2,3) by (rule block_bound)
  from assms(1) have t: "t = \<lparr>shape = ?s,
      elems = map (\<lambda>i. expanded ?N ?s i + expanded ?O ?s i) [0..<B * C * H * W]\<rparr>"
    by (simp add: binary_op_def randn_fst scalar_mul_def tmap_def broadcast_offset_shape numel_def
                  mult.assoc)
  have n: "expanded ?N ?s ?i = normal_stream T (seed g) (drawn g + ?i)"
    using i offset_in_unravel [of ?i ?s]
    by (simp add: expanded_def randn_fst pad_shape_def mult.assoc del: offset_in.simps unravel.simps)
  have o: "expanded ?O ?s ?i = w * normal_stream T (seed g) (drawn g + B * C * H * W + (b * C + c))"
    using bc assms(2-5) unravel4 [OF assms(3-5), of B b]
    by (auto simp: expanded_def randn_fst pad_shape_def scalar_mul_def tmap_def mult.assoc add.assoc
             simp del: unravel.simps)
  from i n o show "elems t ! ?i =
           normal_stream T (seed g) (drawn g + ?i) +
           w * normal_stream T (seed g) (drawn g + B * C * H * W + (b * C + c))"
    by (simp add: t)
qed

subsection \<open>The example runs\<close>

lemmas predict_eval =
  predict_run_def predict_main_def bind_def getitem_def mul_scalar_def tmap_def
  manual_seed_def draw_latent_noise_def draw_timestep_def randn_def randint_def numel_def
  python_int_def shape_at_def binary_op_def broadcast_shapes_def pad_shape_def expanded_def
  assemble_latent_input_def denoise_def Let_def scalar_mul_def concat_dim1_def
  sample_block_def example_torch_def example_model_def example_batch_def example_args_def
  example_progress_def example_process_def upt_rec

lemma example_run:
  "predict_run example_torch example_model example_batch example_args example_progress
     example_process =
   Inr (example_locals, example_process\<lparr>default_generator := \<lparr>seed = 0, drawn = 1\<rparr>\<rparr>)"
  by (simp add: predict_eval example_locals_def)

lemma example_second_run:
  "predict_run example_torch example_model example_batch example_args example_progress
     (example_process\<lparr>default_generator := \<lparr>seed = 0, drawn = 1\<rparr>\<rparr>) =
   Inr (example_locals\<lparr>timestep := \<lparr>shape = [1], elems = [8]\<rparr>\<rparr>,
        example_process\<lparr>default_generator := \<lparr>seed = 0, drawn = 2\<rparr>\<rparr>)"
  by (simp add: predict_eval example_locals_def)

lemma inpainting_run:
  "predict_run example_torch example_model example_batch inpainting_args example_progress
     example_process =
   Inr (inpainting_locals, example_process\<lparr>default_generator := \<lparr>seed = 0, drawn = 1\<rparr>\<rparr>)"
  by (simp add: predict_eval inpainting_args_def inpainting_locals_def)

lemma example_debug_run:
  "predict_run example_torch example_model example_batch
     (example_args\<lparr>debug_mode := True\<rparr>) example_progress example_process =
   Inr (example_locals,
        \<lparr>default_generator = \<lparr>seed = 0, drawn = 1\<rparr>, saved_images = example_debug_images\<rparr>)"
  by (simp add: predict_eval example_locals_def example_debug_images_def debug_images_def
                div_scalar_def clamp_def save_image_def index_select_def flatten_reshape_def
                scalar_sub_def)

subsection \<open>The claims about \<open>predict\<close>\<close>

lemma predict_noise_reproducible:
  assumes "predict_run T model batch args progress p = Inr (l, q)"
    and "predict_run T model batch args progress p' = Inr (l', q')"
  shows "latent_noise l = latent_noise l' \<and> generator l = generator l'"
proof -
  from predict_run_main [OF assms(1)] obtain x lci where
    "predict_main T model batch args progress (default_generator p) =
       Inr (l, x, lci, default_generator q)"
    by blast
  from predict_main_steps [OF this] have
    1: "batch ''latent_image'' = Some x" and
    2: "draw_latent_noise T args (shape x) (manual_seed (global_step progress)) =
          Inr (latent_noise l, generator l)"
    by blast+
  from predict_run_main [OF assms(2)] obtain x' lci' where
    "predict_main T model batch args progress (default_generator p') =
       Inr (l', x', lci', default_generator q')"
    by blast
  from predict_main_steps [OF this] have
    3: "batch ''latent_image'' = Some x'" and
    4: "draw_latent_noise T args (shape x') (manual_seed (global_step progress)) =
          Inr (latent_noise l', generator l')"
    by blast+
  from 1 3 have "x' = x" by simp
  with 2 4 show ?thesis by simp
qed

text \<open>
  C1, at a failing input. Two invocations of \<open>predict\<close>, one after the other, with the
  same model, batch, arguments and global step (7): both return, the noise is the same,
  and the timesteps differ (5, then 8), because the timestep comes from the default
  generator of the process, which the first invocation has advanced.
\<close>

theorem predict_timestep_not_reproducible:
  "predict_run example_torch example_model example_batch example_args example_progress
     example_process =
     Inr (example_locals, example_process\<lparr>default_generator := \<lparr>seed = 0, drawn = 1\<rparr>\<rparr>) \<and>
   predict_run example_torch example_model example_batch example_args example_progress
     (example_process\<lparr>default_generator := \<lparr>seed = 0, drawn = 1\<rparr>\<rparr>) =
     Inr (example_locals\<lparr>timestep := \<lparr>shape = [1], elems = [8]\<rparr>\<rparr>,
          example_process\<lparr>default_generator := \<lparr>seed = 0, drawn = 2\<rparr>\<rparr>) \<and>
   latent_noise (example_locals\<lparr>timestep := \<lparr>shape = [1], elems = [8]\<rparr>\<rparr>) =
     latent_noise example_locals \<and>
   timestep (example_locals\<lparr>timestep := \<lparr>shape = [1], elems = [8]\<rparr>\<rparr>) \<noteq>
     timestep example_locals"
  using example_run example_second_run by (simp add: example_locals_def)

text \<open>
  C3. When \<open>predict\<close> returns: if the model type has both a mask input and a
  conditioning-image input, the input of the denoising network is the concatenation along
  dimension 1 of the scaled noisy latent image, the latent mask of the batch and the
  scaled latent conditioning image, and its channel count is the sum of their three
  channel counts; otherwise it is the scaled noisy latent image itself. In both cases
  the predicted noise is what the U-Net returns on that input.
\<close>

theorem predict_latent_input:
  "predict_run T model batch args progress p = Inr (l, q) \<Longrightarrow>
   (has_mask_input (model_type args) \<and> has_conditioning_image_input (model_type args) \<longrightarrow>
      (\<exists>mask cond. batch ''latent_mask'' = Some mask \<and>
         batch ''latent_conditioning_image'' = Some cond \<and>
         concat_dim1 [scaled_noisy_latent_image l, mask,
                      mul_scalar cond (scaling_factor (vae model))] = Inr (latent_input l) \<and>
         shape (latent_input l) ! 1 =
           shape (scaled_noisy_latent_image l) ! 1 + shape mask ! 1 + shape cond ! 1)) \<and>
   (\<not> (has_mask_input (model_type args) \<and> has_conditioning_image_input (model_type args)) \<longrightarrow>
      latent_input l = scaled_noisy_latent_image l) \<and>
   forward (unet model) (latent_input l) (timestep l) (text_encoder_output l)
     (if has_depth_input (model_type args) then batch ''latent_depth'' else None) =
     Inr (predicted_latent_noise l)"
proof -
  assume run: "predict_run T model batch args progress p = Inr (l, q)"
  from predict_run_main [OF run] obtain x lci where
    m: "predict_main T model batch args progress (default_generator p) =
          Inr (l, x, lci, default_generator q)"
    by blast
  from predict_main_steps [OF m] have
    s: "lci = (if has_conditioning_image_input (model_type args)
           then batch ''latent_conditioning_image'' else None)" and
    a: "assemble_latent_input args batch (scaled_noisy_latent_image l)
      (map_option (\<lambda>c. mul_scalar c (scaling_factor (vae model))) lci) = Inr (latent_input l)" and
    d: "denoise model args batch (latent_input l) (timestep l) (text_encoder_output l) =
      Inr (predicted_latent_noise l)"
    by blast+
  have 1: "has_mask_input (model_type args) \<and> has_conditioning_image_input (model_type args) \<longrightarrow>
      (\<exists>mask cond. batch ''latent_mask'' = Some mask \<and>
         batch ''latent_conditioning_image'' = Some cond \<and>
         concat_dim1 [scaled_noisy_latent_image l, mask,
                      mul_scalar cond (scaling_factor (vae model))] = Inr (latent_input l) \<and>
         shape (latent_input l) ! 1 =
           shape (scaled_noisy_latent_image l) ! 1 + shape mask ! 1 + shape cond ! 1)"
  proof
    assume both: "has_mask_input (model_type args) \<and>
                  has_conditioning_image_input (model_type args)"
    with a s obtain mask cond where
      mk: "batch ''latent_mask'' = Some mask" and
      cd: "batch ''latent_conditioning_image'' = Some cond" and
      cc: "concat_dim1 [scaled_noisy_latent_image l, mask,
                      mul_scalar cond (scaling_factor (vae model))] = Inr (latent_input l)"
      by (auto simp: assemble_latent_input_def bind_Inr_iff getitem_def
               split: option.splits)
    from concat_dim1_channels [OF cc] mk cd cc show
      "\<exists>mask cond. batch ''latent_mask'' = Some mask \<and>
         batch ''latent_conditioning_image'' = Some cond \<and>
         concat_dim1 [scaled_noisy_latent_image l, mask,
                      mul_scalar cond (scaling_factor (vae model))] = Inr (latent_input l) \<and>
         shape (latent_input l) ! 1 =
           shape (scaled_noisy_latent_image l) ! 1 + shape mask ! 1 + shape cond ! 1"
      by (simp add: shape_mul_scalar)
  qed
  have 2: "\<not> (has_mask_input (model_type args) \<and> has_conditioning_image_input (model_type args)) \<longrightarrow>
      latent_input l = scaled_noisy_latent_image l"
    using a by (auto simp: assemble_latent_input_def)
  have 3: "forward (unet model) (latent_input l) (timestep l) (text_encoder_output l)
     (if has_depth_input (model_type args) then batch ''latent_depth'' else None) =
     Inr (predicted_latent_noise l)"
    using d by (auto simp: denoise_def bind_Inr_iff getitem_def split: option.splits if_splits)
  from 1 2 3 show ?thesis by blast
qed

text \<open>The inpainting run: one channel each of noisy latent, mask and conditioning image
  give an input of three channels.\<close>

theorem predict_latent_input_witness:
  "predict_run example_torch example_model example_batch inpainting_args example_progress
     example_process =
     Inr (inpainting_locals, example_process\<lparr>default_generator := \<lparr>seed = 0, drawn = 1\<rparr>\<rparr>) \<and>
   shape (latent_input inpainting_locals) = [1, 3, 1, 2] \<and>
   elems (latent_input inpainting_locals) = [27 / 2, 33 / 2, 0, 1, 6, 8] \<and>
   concat_dim1 [scaled_noisy_latent_image inpainting_locals,
                \<lparr>shape = [1, 1, 1, 2], elems = [0, 1]\<rparr>,
                mul_scalar \<lparr>shape = [1, 1, 1, 2], elems = [3, 4]\<rparr> 2] =
     Inr (latent_input inpainting_locals)"
  using predict_latent_input [OF inpainting_run]
  by (simp add: inpainting_run)
     (simp add: inpainting_locals_def inpainting_args_def example_args_def example_batch_def
                example_model_def)

text \<open>
  C5. When \<open>predict\<close> returns with \<open>args.debug_mode\<close> set, it returns with it unset
  too, with the same local variables, among them the tensors it returns and the state
  of the seeded generator, and it leaves the same default generator; the two runs
  differ in the saved images only. So the pair that \<open>predict\<close> returns is the same.
\<close>

theorem predict_debug_mode_transparent:
  "predict_run T model batch (args\<lparr>debug_mode := True\<rparr>) progress p = Inr (l, q) \<Longrightarrow>
   predict_run T model batch (args\<lparr>debug_mode := False\<rparr>) progress p =
     Inr (l, q\<lparr>saved_images := saved_images p\<rparr>) \<and>
   predict T model batch (args\<lparr>debug_mode := True\<rparr>) progress p =
     Inr (predicted_latent_noise l, latent_noise l) \<and>
   predict T model batch (args\<lparr>debug_mode := False\<rparr>) progress p =
     Inr (predicted_latent_noise l, latent_noise l)"
proof -
  assume run: "predict_run T model batch (args\<lparr>debug_mode := True\<rparr>) progress p = Inr (l, q)"
  from predict_run_main [OF run] obtain x lci where
    m: "predict_main T model batch args progress (default_generator p) =
          Inr (l, x, lci, default_generator q)"
    by (auto simp: predict_main_debug)
  have off: "predict_run T model batch (args\<lparr>debug_mode := False\<rparr>) progress p =
     Inr (l, q\<lparr>saved_images := saved_images p\<rparr>)"
    by (simp add: predict_run_no_debug m bind_Inr)
  from run off show ?thesis by (simp add: predict_def bind_Inr)
qed

lemma predict_debug_branch_raises_or_agrees:
  assumes "predict_run T model batch (args\<lparr>debug_mode := False\<rparr>) progress p = Inr (l, q)"
  shows "(\<exists>e. predict_run T model batch (args\<lparr>debug_mode := True\<rparr>) progress p = Inl e) \<or>
         (\<exists>saved. predict_run T model batch (args\<lparr>debug_mode := True\<rparr>) progress p =
            Inr (l, q\<lparr>saved_images := saved\<rparr>))"
proof (cases "predict_run T model batch (args\<lparr>debug_mode := True\<rparr>) progress p")
  case (Inl e)
  then show ?thesis by blast
next
  case (Inr r)
  obtain l' q' where r: "r = (l', q')" by (cases r)
  from predict_run_main [OF Inr [unfolded r]] obtain x lci where
    m: "predict_main T model batch args progress (default_generator p) =
          Inr (l', x, lci, default_generator q')"
    by (auto simp: predict_main_debug)
  with assms have l: "l' = l" and g: "default_generator q = default_generator q'"
    by (auto simp: predict_run_no_debug bind_Inr)
  from g have "q\<lparr>saved_images := saved_images q'\<rparr> = q'"
    by (cases q, cases q') simp
  with Inr r l have "predict_run T model batch (args\<lparr>debug_mode := True\<rparr>) progress p =
            Inr (l, q\<lparr>saved_images := saved_images q'\<rparr>)"
    by simp
  then show ?thesis by blast
qed

text \<open>The example run with the debug branch: five images are saved, and the returned
  pair is the one of the run without it.\<close>

theorem predict_debug_mode_transparent_witness:
  "predict_run example_torch example_model example_batch
     (example_args\<lparr>debug_mode := True\<rparr>) example_progress example_process =
     Inr (example_locals,
          \<lparr>default_generator = \<lparr>seed = 0, drawn = 1\<rparr>, saved_images = example_debug_images\<rparr>) \<and>
   length example_debug_images = 5 \<and>
   predict example_torch example_model example_batch
     (example_args\<lparr>debug_mode := True\<rparr>) example_progress example_process =
     Inr (\<lparr>shape = [1, 1, 1, 2], elems = [9, 12]\<rparr>, \<lparr>shape = [1, 1, 1, 2], elems = [7, 8]\<rparr>) \<and>
   predict example_torch example_model example_batch
     (example_args\<lparr>debug_mode := False\<rparr>) example_progress example_process =
     Inr (\<lparr>shape = [1, 1, 1, 2], elems = [9, 12]\<rparr>, \<lparr>shape = [1, 1, 1, 2], elems = [7, 8]\<rparr>)"
  using predict_debug_mode_transparent [OF example_debug_run]
  by (simp add: example_debug_run) (simp add: example_locals_def example_debug_images_def)

text \<open>
  C6. When \<open>predict\<close> returns, the timestep tensor has one entry per sample of the
  batch (the size of dimension 0 of the latent image), it is what \<open>torch.randint\<close> draws
  with \<open>low = 0\<close> and \<open>high = int(num_train_timesteps * max_noising_strength)\<close>, and every
  entry \<open>t\<close> satisfies \<open>0 \<le> t < max_noising_strength * num_train_timesteps\<close>.
\<close>

theorem predict_timestep_range:
  "predict_run T model batch args progress p = Inr (l, q) \<Longrightarrow>
   (\<exists>x n. batch ''latent_image'' = Some x \<and> shape_at (shape x) 0 = Inr n \<and>
      shape (timestep l) = [n] \<and> length (elems (timestep l)) = n \<and>
      randint T 0 (python_int (real_of_int (num_train_timesteps (noise_scheduler model)) *
                               max_noising_strength args)) [n] (default_generator p) =
        Inr (timestep l, default_generator q)) \<and>
   (\<forall>t \<in> set (elems (timestep l)). 0 \<le> t \<and>
      real_of_int t < max_noising_strength args *
                      real_of_int (num_train_timesteps (noise_scheduler model)))"
proof -
  assume run: "predict_run T model batch args progress p = Inr (l, q)"
  from predict_run_main [OF run] obtain x lci where
    m: "predict_main T model batch args progress (default_generator p) =
          Inr (l, x, lci, default_generator q)"
    by blast
  from predict_main_steps [OF m] have
    x: "batch ''latent_image'' = Some x" and
    d: "draw_timestep T (noise_scheduler model) args (shape x) (default_generator p) =
          Inr (timestep l, default_generator q)"
    by blast+
  from draw_timestep_range [OF d] obtain n where
    n: "shape_at (shape x) 0 = Inr n" "shape (timestep l) = [n]"
       "length (elems (timestep l)) = n" and
    r: "\<forall>t \<in> set (elems (timestep l)). 0 \<le> t \<and>
      real_of_int t < max_noising_strength args *
                      real_of_int (num_train_timesteps (noise_scheduler model))"
    by blast
  from d n(1) have
    "randint T 0 (python_int (real_of_int (num_train_timesteps (noise_scheduler model)) *
                              max_noising_strength args)) [n] (default_generator p) =
       Inr (timestep l, default_generator q)"
    by (simp add: draw_timestep_def Let_def bind_def)
  with x n r show ?thesis by blast
qed

text \<open>The example run: one sample, timestep 5, below 1 times 1000.\<close>

theorem predict_timestep_range_witness:
  "predict_run example_torch example_model example_batch example_args example_progress
     example_process =
     Inr (example_locals, example_process\<lparr>default_generator := \<lparr>seed = 0, drawn = 1\<rparr>\<rparr>) \<and>
   elems (timestep example_locals) = [5] \<and>
   real_of_int 5 < max_noising_strength example_args *
                   real_of_int (num_train_timesteps (noise_scheduler example_model))"
  using predict_timestep_range [OF example_run]
  by (simp add: example_run) (simp add: example_locals_def example_args_def example_model_def)

text \<open>
  C7. When \<open>predict\<close> returns on a batch whose latent image is \<open>x\<close>: if
  \<open>args.offset_noise_weight\<close> is not positive, the noise is the plain Gaussian draw of
  the shape of \<open>x\<close> from the generator seeded with the global step. If it is positive,
  the noise is that draw plus, broadcast, the weight times a second Gaussian draw of shape
  \<open>[b, c, 1, 1]\<close> from the same generator, where \<open>b\<close> and \<open>c\<close> are the first two sizes of
  \<open>x\<close>; for a latent image of shape \<open>[B, C, H, W]\<close> the entry of the noise at
  \<open>(b, c, h, k)\<close> is the entry of the first draw there plus the weight times the one
  entry of the second draw for \<open>(b, c)\<close>, the same for every \<open>h\<close> and \<open>k\<close>.
\<close>

theorem predict_latent_noise_offset:
  "predict_run T model batch args progress p = Inr (l, q) \<Longrightarrow>
   batch ''latent_image'' = Some x \<Longrightarrow>
   (\<not> 0 < offset_noise_weight args \<longrightarrow>
      latent_noise l = fst (randn T (shape x) (manual_seed (global_step progress)))) \<and>
   (0 < offset_noise_weight args \<longrightarrow>
      (\<exists>b c. shape_at (shape x) 0 = Inr b \<and> shape_at (shape x) 1 = Inr c \<and>
         binary_op (+) (fst (randn T (shape x) (manual_seed (global_step progress))))
           (scalar_mul (offset_noise_weight args)
              (fst (randn T [b, c, 1, 1]
                      (snd (randn T (shape x) (manual_seed (global_step progress))))))) =
           Inr (latent_noise l))) \<and>
   (0 < offset_noise_weight args \<and> shape x = [B, C, H, W] \<longrightarrow>
      shape (latent_noise l) = [B, C, H, W] \<and>
      (\<forall>b<B. \<forall>c<C. \<forall>h<H. \<forall>k<W.
         elems (latent_noise l) ! (((b * C + c) * H + h) * W + k) =
           normal_stream T (global_step progress) (((b * C + c) * H + h) * W + k) +
           offset_noise_weight args *
             normal_stream T (global_step progress) (B * C * H * W + (b * C + c))))"
proof -
  assume run: "predict_run T model batch args progress p = Inr (l, q)"
    and x: "batch ''latent_image'' = Some x"
  let ?g = "manual_seed (global_step progress)"
  from predict_run_main [OF run] obtain x' lci where
    m: "predict_main T model batch args progress (default_generator p) =
          Inr (l, x', lci, default_generator q)"
    by blast
  from predict_main_steps [OF m] x have
    d: "draw_latent_noise T args (shape x) ?g = Inr (latent_noise l, generator l)"
    by simp
  have 1: "\<not> 0 < offset_noise_weight args \<longrightarrow> latent_noise l = fst (randn T (shape x) ?g)"
    using d by (auto simp: draw_latent_noise_def)
  have 2: "0 < offset_noise_weight args \<longrightarrow>
      (\<exists>b c. shape_at (shape x) 0 = Inr b \<and> shape_at (shape x) 1 = Inr c \<and>
         binary_op (+) (fst (randn T (shape x) ?g))
           (scalar_mul (offset_noise_weight args)
              (fst (randn T [b, c, 1, 1] (snd (randn T (shape x) ?g))))) =
           Inr (latent_noise l))"
    using d
    by (auto simp: draw_latent_noise_def bind_Inr_iff split_beta)
  have 3: "0 < offset_noise_weight args \<and> shape x = [B, C, H, W] \<longrightarrow>
      shape (latent_noise l) = [B, C, H, W] \<and>
      (\<forall>b<B. \<forall>c<C. \<forall>h<H. \<forall>k<W.
         elems (latent_noise l) ! (((b * C + c) * H + h) * W + k) =
           normal_stream T (global_step progress) (((b * C + c) * H + h) * W + k) +
           offset_noise_weight args *
             normal_stream T (global_step progress) (B * C * H * W + (b * C + c)))"
  proof
    assume a: "0 < offset_noise_weight args \<and> shape x = [B, C, H, W]"
    with 2 have op: "binary_op (+) (fst (randn T [B, C, H, W] ?g))
           (scalar_mul (offset_noise_weight args)
              (fst (randn T [B, C, 1, 1] (snd (randn T [B, C, H, W] ?g))))) =
           Inr (latent_noise l)"
      by (auto simp: shape_at_def)
    have "shape (latent_noise l) = [B, C, H, W]"
      using op by (rule offset_noise_shape)
    moreover have "\<forall>b<B. \<forall>c<C. \<forall>h<H. \<forall>k<W.
         elems (latent_noise l) ! (((b * C + c) * H + h) * W + k) =
           normal_stream T (global_step progress) (((b * C + c) * H + h) * W + k) +
           offset_noise_weight args *
             normal_stream T (global_step progress) (B * C * H * W + (b * C + c))"
      using offset_noise_elements [OF op] by (simp add: manual_seed_def)
    ultimately show "shape (latent_noise l) = [B, C, H, W] \<and>
      (\<forall>b<B. \<forall>c<C. \<forall>h<H. \<forall>k<W.
         elems (latent_noise l) ! (((b * C + c) * H + h) * W + k) =
           normal_stream T (global_step progress) (((b * C + c) * H + h) * W + k) +
           offset_noise_weight args *
             normal_stream T (global_step progress) (B * C * H * W + (b * C + c)))"
      by blast
  qed
  from 1 2 3 show ?thesis by blast
qed

text \<open>The inpainting run, with weight one half: the first draw is 7, 8, the second is 9,
  and the noise is 7 + 9/2, 8 + 9/2.\<close>

theorem predict_latent_noise_offset_witness:
  "predict_run example_torch example_model example_batch inpainting_args example_progress
     example_process =
     Inr (inpainting_locals, example_process\<lparr>default_generator := \<lparr>seed = 0, drawn = 1\<rparr>\<rparr>) \<and>
   (0::real) < offset_noise_weight inpainting_args \<and>
   latent_noise inpainting_locals = \<lparr>shape = [1, 1, 1, 2], elems = [7 + 9 / 2, 8 + 9 / 2]\<rparr> \<and>
   elems (latent_noise inpainting_locals) ! 1 =
     normal_stream example_torch 7 1 + 1 / 2 * normal_stream example_torch 7 2"
  using predict_latent_noise_offset [OF inpainting_run, of "\<lparr>shape = [1, 1, 1, 2], elems = [1, 2]\<rparr>" 1 1 1 2]
  by (simp add: inpainting_run)
     (simp add: inpainting_locals_def inpainting_args_def example_args_def example_batch_def
                example_torch_def example_progress_def)

section \<open>Theorems: SanaSampler.sample\<close>

lemma quantize_resolution_dvd: "q dvd quantize_resolution r q"
  by (simp add: quantize_resolution_def Let_def)

text \<open>
  C10. For every sample configuration, \<open>sample\<close> generates its image by one call of
  \<open>__sample_base\<close> whose height and width are the requested height and width quantized
  with step 32, and both are multiples of 32. So the latent that \<open>__sample_base\<close>
  denoises loses nothing to the integer division by a \<open>vae_scale_factor\<close> that divides
  32: its height and width times the factor are the height and width used.
\<close>

theorem sample_resolution_quantized:
  "sample A B rescale zero sample_config destination =
     ([(destination, B (sample_base_arguments A rescale zero sample_config))],
      [B (sample_base_arguments A rescale zero sample_config)]) \<and>
   arg_height (sample_base_arguments A rescale zero sample_config) =
     quantize_resolution (height sample_config) 32 \<and>
   arg_width (sample_base_arguments A rescale zero sample_config) =
     quantize_resolution (width sample_config) 32 \<and>
   32 dvd arg_height (sample_base_arguments A rescale zero sample_config) \<and>
   32 dvd arg_width (sample_base_arguments A rescale zero sample_config) \<and>
   (v dvd 32 \<longrightarrow>
      latent_image_size n v (sample_base_arguments A rescale zero sample_config) ! 2 * v =
        arg_height (sample_base_arguments A rescale zero sample_config) \<and>
      latent_image_size n v (sample_base_arguments A rescale zero sample_config) ! 3 * v =
        arg_width (sample_base_arguments A rescale zero sample_config))"
proof -
  let ?c = "sample_base_arguments A rescale zero sample_config"
  have h: "arg_height ?c = quantize_resolution (height sample_config) 32"
    and w: "arg_width ?c = quantize_resolution (width sample_config) 32"
    by (simp_all add: sample_base_arguments_def Let_def)
  have dh: "32 dvd arg_height ?c" and dw: "32 dvd arg_width ?c"
    by (simp_all add: h w quantize_resolution_dvd)
  have "v dvd 32 \<longrightarrow> latent_image_size n v ?c ! 2 * v = arg_height ?c \<and>
                       latent_image_size n v ?c ! 3 * v = arg_width ?c"
  proof
    assume "v dvd 32"
    with dh dw have "v dvd arg_height ?c" "v dvd arg_width ?c"
      by (blast intro: dvd_trans)+
    then show "latent_image_size n v ?c ! 2 * v = arg_height ?c \<and>
               latent_image_size n v ?c ! 3 * v = arg_width ?c"
      by (simp add: latent_image_size_def)
  qed
  with h w dh dw show ?thesis by (simp add: sample_def Let_def)
qed

text \<open>A request of 1000 by 720 is generated at 992 by 704 (720 is halfway between 704
  and 736; the tie goes to the even multiple).\<close>

theorem sample_resolution_quantized_witness:
  "arg_height (sample_base_arguments id 0.7 0 example_sample_config) = 992 \<and>
   arg_width (sample_base_arguments id 0.7 0 example_sample_config) = 704 \<and>
   (32::int) dvd 992 \<and> (32::int) dvd 704 \<and>
   latent_image_size 32 32 (sample_base_arguments id 0.7 0 example_sample_config) =
     [1, 32, 31, 22]"
  using sample_resolution_quantized
          [of id id "0.7" 0 example_sample_config "''out.png''" 32 32]
  by (simp add: sample_base_arguments_def example_sample_config_def
                quantize_resolution_def latent_image_size_def Let_def)

section \<open>Theorems: the data loader\<close>

text \<open>
  C8. The enumeration stage starts with the module that collects the paths with the
  supported image extensions and excludes the postfix \<open>-masklabel\<close>; the module that
  derives \<open>mask_path\<close> from \<open>image_path\<close> (postfix \<open>-masklabel\<close>, extension \<open>.png\<close>) is in
  the stage if and only if \<open>args.masked_training\<close> is set.
\<close>

theorem enumerate_input_modules_mask_path:
  "hd (enumerate_input_modules args) =
     CollectPaths ''concept'' ''path'' ''name'' ''image_path'' ''concept''
       [''.bmp'', ''.jpg'', ''.jpeg'', ''.png'', ''.tif'', ''.tiff'', ''.webp'']
       None (Some [''-masklabel'']) \<and>
   (ModifyPath ''image_path'' ''mask_path'' ''-masklabel'' ''.png''
      \<in> set (enumerate_input_modules args) \<longleftrightarrow> masked_training args) \<and>
   length (enumerate_input_modules args) = (if masked_training args then 2 else 1)"
  by (simp add: enumerate_input_modules_def collect_paths_def mask_path_def
                supported_extensions_def Let_def)

text \<open>
  C4, as the code has it. Whatever the configuration, the output stage has one
  distribution-sampling module, from \<open>latent_image_distribution\<close> to \<open>latent_image\<close>, and
  its mode is \<open>mean\<close>.
\<close>

theorem output_modules_sampling_mode_mean:
  "hd (output_modules args) =
     SampleVAEDistribution ''latent_image_distribution'' ''latent_image'' ''mean'' \<and>
   sampling_modes (output_modules args) = [''mean'']"
  by (simp add: output_modules_def Let_def)

text \<open>C4, as the claim states it, fails: no two configurations differ in the mode.\<close>

theorem output_modules_sampling_mode_not_selectable:
  "\<not> (\<exists>a b :: real TrainArgs.
        sampling_modes (output_modules a) \<noteq> sampling_modes (output_modules b))"
  by (simp add: output_modules_def Let_def)

end
